theory Spec2Isabelle
  imports Complex_Main
begin

section \<open>The simple RPS policy module of Switch (switch\_model/policies/rps\_simple.py)\<close>

text \<open>
  The module declares components on a Pyomo model, loads two input files, and
  reports energy statistics after the solve. Names (fuels, generation projects,
  periods, load zones) are strings, timepoints are numbers, and every numeric
  quantity is an exact real: the rounding of Python's floats is not modelled.
\<close>

type_synonym fuel = string
type_synonym gen = string
type_synonym period = string
type_synonym zone = string
type_synonym timepoint = nat

text \<open>
  The failures the module can meet. Pyomo raises \<open>ValueError\<close> when a set
  member fails its \<open>validate\<close> rule, when a parameter value lies outside its
  \<open>within\<close> domain and when a parameter without default is read where it has
  no value, and \<open>KeyError\<close> when a parameter is read at an index outside
  its index set; the loader raises \<open>IOError\<close> for a missing file; \<open>/\<close>
  raises \<open>ZeroDivisionError\<close> on a zero divisor.
\<close>

datatype py_error = IOError | ValueError | KeyError | ZeroDivisionError

subsection \<open>The model object\<close>

text \<open>
  A constraint \<open>lhs >= rhs\<close>, both sides evaluated at the values the decision
  variables hold.
\<close>

record constraint =
  ge_lhs :: real
  ge_rhs :: real

text \<open>
  The model object \<open>m\<close>. The first group of fields belongs to the host
  framework: its sets (in iteration order), its parameters and the values of
  its decision variables \<open>DispatchGen\<close> and \<open>GenFuelUseRate\<close>. The host's
  indexed components are read only at indices drawn from the host's own index
  sets, so they are total functions here. The second group is what this module
  attaches: the values stored for \<open>f_rps_eligible\<close> (a fuel without a stored
  value has none here; the declared default is applied on reading), the members
  of \<open>RPS_PERIODS\<close>, the values stored for \<open>rps_target\<close>, and the
  constraints of \<open>RPS_Enforce_Target\<close> by period.
\<close>

record model =
  FUELS :: "fuel list"
  NON_FUEL_ENERGY_SOURCES :: "string list"
  PERIODS :: "period list"
  LOAD_ZONES :: "zone list"
  GENERATION_PROJECTS :: "gen list"
  FUEL_BASED_GENS :: "gen list"
  NON_FUEL_BASED_GENS :: "gen list"
  FUELS_FOR_GEN :: "gen \<Rightarrow> fuel list"
  TPS_FOR_GEN_IN_PERIOD :: "gen \<times> period \<Rightarrow> timepoint list"
  tp_weight :: "timepoint \<Rightarrow> real"
  gen_full_load_heat_rate :: "gen \<Rightarrow> real"
  zone_total_demand_in_period_mwh :: "zone \<times> period \<Rightarrow> real"
  DispatchGen :: "gen \<times> timepoint \<Rightarrow> real"
  GenFuelUseRate :: "gen \<times> timepoint \<times> fuel \<Rightarrow> real"
  f_rps_eligible_values :: "fuel \<rightharpoonup> bool"
  RPS_PERIODS :: "period list"
  rps_target_values :: "period \<rightharpoonup> real"
  RPS_Enforce_Target :: "(period \<times> constraint) list"

subsection \<open>Python arithmetic\<close>

text \<open>\<open>a / b\<close> raises on a zero divisor.\<close>

definition py_div :: "real \<Rightarrow> real \<Rightarrow> py_error + real" where
  "py_div a b = (if b = 0 then Inl ZeroDivisionError else Inr (a / b))"

text \<open>
  \<open>sum(...)\<close> over a generator whose terms may raise: the first term that
  raises ends the sum.
\<close>

fun py_sum :: "(py_error + real) list \<Rightarrow> py_error + real" where
  "py_sum [] = Inr 0"
| "py_sum (x # xs) =
     (case x of
        Inl e \<Rightarrow> Inl e
      | Inr v \<Rightarrow> (case py_sum xs of Inl e \<Rightarrow> Inl e | Inr s \<Rightarrow> Inr (v + s)))"

text \<open>A rule applied to every member of an index set, in order, until one raises.\<close>

fun for_each :: "('a \<Rightarrow> py_error + 'b) \<Rightarrow> 'a list \<Rightarrow> py_error + ('a \<times> 'b) list" where
  "for_each rule [] = Inr []"
| "for_each rule (i # is) =
     (case rule i of
        Inl e \<Rightarrow> Inl e
      | Inr v \<Rightarrow> (case for_each rule is of Inl e \<Rightarrow> Inl e | Inr vs \<Rightarrow> Inr ((i, v) # vs)))"

subsection \<open>Parameters as the module reads them\<close>

text \<open>
  \<open>f_rps_eligible = Param(FUELS, within=Boolean, default=False)\<close>: reading
  \<open>m.f_rps_eligible[f]\<close> gives the stored value, or the default.
\<close>

definition f_rps_eligible :: "model \<Rightarrow> fuel \<Rightarrow> bool" where
  "f_rps_eligible m f = (case f_rps_eligible_values m f of None \<Rightarrow> False | Some b \<Rightarrow> b)"

text \<open>
  \<open>rps_target = Param(RPS_PERIODS, within=PercentFraction)\<close> has no default:
  reading it at a period outside \<open>RPS_PERIODS\<close> raises \<open>KeyError\<close>, and
  reading it at a member for which no value is stored raises \<open>ValueError\<close>.
\<close>

definition rps_target :: "model \<Rightarrow> period \<Rightarrow> py_error + real" where
  "rps_target m p =
     (if p \<notin> set (RPS_PERIODS m) then Inl KeyError
      else (case rps_target_values m p of None \<Rightarrow> Inl ValueError | Some v \<Rightarrow> Inr v))"

subsection \<open>Derived set and expressions (define\_components)\<close>

text \<open>
  \<open>set(m.NON_FUEL_ENERGY_SOURCES) | set(f for f in m.FUELS if m.f_rps_eligible[f])\<close>
\<close>

definition RPS_ENERGY_SOURCES :: "model \<Rightarrow> string set" where
  "RPS_ENERGY_SOURCES m =
     set (NON_FUEL_ENERGY_SOURCES m) \<union> set (filter (f_rps_eligible m) (FUELS m))"

text \<open>
  One term of \<open>RPSFuelEnergy\<close>:
  \<open>tp_weight[t] * sum(GenFuelUseRate[g, t, f] for f in FUELS_FOR_GEN[g] if f_rps_eligible[f])
     / gen_full_load_heat_rate[g]\<close>;
  \<open>*\<close> and \<open>/\<close> associate to the left.
\<close>

definition RPSFuelEnergy_term :: "model \<Rightarrow> gen \<Rightarrow> timepoint \<Rightarrow> py_error + real" where
  "RPSFuelEnergy_term m g t =
     py_div
       (tp_weight m t *
          (\<Sum>f\<leftarrow>filter (f_rps_eligible m) (FUELS_FOR_GEN m g). GenFuelUseRate m (g, t, f)))
       (gen_full_load_heat_rate m g)"

definition RPSFuelEnergy :: "model \<Rightarrow> period \<Rightarrow> py_error + real" where
  "RPSFuelEnergy m p =
     py_sum [RPSFuelEnergy_term m g t. g \<leftarrow> FUEL_BASED_GENS m, t \<leftarrow> TPS_FOR_GEN_IN_PERIOD m (g, p)]"

definition RPSNonFuelEnergy :: "model \<Rightarrow> period \<Rightarrow> real" where
  "RPSNonFuelEnergy m p =
     sum_list [DispatchGen m (g, t) * tp_weight m t.
               g \<leftarrow> NON_FUEL_BASED_GENS m, t \<leftarrow> TPS_FOR_GEN_IN_PERIOD m (g, p)]"

definition total_generation_in_period :: "model \<Rightarrow> period \<Rightarrow> real" where
  "total_generation_in_period m p =
     sum_list [DispatchGen m (g, t) * tp_weight m t.
               g \<leftarrow> GENERATION_PROJECTS m, t \<leftarrow> TPS_FOR_GEN_IN_PERIOD m (g, p)]"

definition total_demand_in_period :: "model \<Rightarrow> period \<Rightarrow> real" where
  "total_demand_in_period m p =
     sum_list [zone_total_demand_in_period_mwh m (z, p). z \<leftarrow> LOAD_ZONES m]"

text \<open>
  The rule of \<open>RPS_Enforce_Target\<close>:
  \<open>RPSFuelEnergy[p] + RPSNonFuelEnergy[p] >= rps_target[p] * total_demand_in_period(m, p)\<close>.
\<close>

definition RPS_Enforce_Target_rule :: "model \<Rightarrow> period \<Rightarrow> py_error + constraint" where
  "RPS_Enforce_Target_rule m p =
     (case RPSFuelEnergy m p of
        Inl e \<Rightarrow> Inl e
      | Inr fe \<Rightarrow>
          (case rps_target m p of
             Inl e \<Rightarrow> Inl e
           | Inr tgt \<Rightarrow>
               Inr \<lparr>ge_lhs = fe + RPSNonFuelEnergy m p,
                    ge_rhs = tgt * total_demand_in_period m p\<rparr>))"

definition satisfied :: "constraint \<Rightarrow> bool" where
  "satisfied c = (ge_rhs c \<le> ge_lhs c)"

text \<open>
  A solution is feasible for this module when every constraint the module
  added holds at the values of the decision variables.
\<close>

definition feasible :: "model \<Rightarrow> bool" where
  "feasible m = list_all (\<lambda>(p, c). satisfied c) (RPS_Enforce_Target m)"

subsection \<open>Input files and the loader (load\_inputs)\<close>

text \<open>
  A tab file as the loader sees it: the index column (the first column: the
  fuel of fuels.tab, the PERIOD of rps\_targets.tab) and the remaining columns
  by the name in the header row. The inputs directory maps a file name to the
  file, when it exists.
\<close>

record tab_file =
  index_column :: "string list"
  value_columns :: "(string \<times> real list) list"

type_synonym inputs_dir = "string \<rightharpoonup> tab_file"

text \<open>What the data portal holds for this module's components after loading.\<close>

record switch_data =
  f_rps_eligible_loaded :: "(fuel \<times> real) list"
  RPS_PERIODS_loaded :: "period list"
  rps_target_loaded :: "(period \<times> real) list"

text \<open>
  Modelled from the spec: \<open>load_aug\<close>, the host's file-loading utility
  (a method of \<open>switch_data\<close>), is not part of the module's source. By the
  spec a file is mandatory unless stated otherwise and its absence is a fatal
  load error; a column named in \<open>optional_params\<close> may be absent from the
  header, and then nothing is loaded for that parameter; otherwise every row
  gives the parameter a value at the row's index. The spec does not say what a
  missing column that is not optional does; it is taken to be fatal as well.
\<close>

definition load_aug ::
    "inputs_dir \<Rightarrow> string \<Rightarrow> string \<Rightarrow> bool \<Rightarrow> py_error + (string \<times> real) list" where
  "load_aug inputs_dir filename param optional_param =
     (case inputs_dir filename of
        None \<Rightarrow> Inl IOError
      | Some tab \<Rightarrow>
          (case map_of (value_columns tab) param of
             None \<Rightarrow> if optional_param then Inr [] else Inl ValueError
           | Some vs \<Rightarrow> Inr (zip (index_column tab) vs)))"

text \<open>
  \<open>load_inputs\<close>: first fuels.tab with \<open>f_rps_eligible\<close> as an optional
  parameter, then rps\_targets.tab, whose rows give both the members of
  \<open>RPS_PERIODS\<close> (\<open>index=mod.RPS_PERIODS\<close>) and the values of
  \<open>rps_target\<close>. An exception of either call leaves the function at once.
\<close>

definition load_inputs :: "switch_data \<Rightarrow> inputs_dir \<Rightarrow> py_error + switch_data" where
  "load_inputs switch_data inputs_dir =
     (case load_aug inputs_dir ''fuels.tab'' ''f_rps_eligible'' True of
        Inl e \<Rightarrow> Inl e
      | Inr eligible \<Rightarrow>
          (case load_aug inputs_dir ''rps_targets.tab'' ''rps_target'' False of
             Inl e \<Rightarrow> Inl e
           | Inr targets \<Rightarrow>
               Inr (switch_data
                     \<lparr>f_rps_eligible_loaded := eligible,
                      RPS_PERIODS_loaded := map fst targets,
                      rps_target_loaded := targets\<rparr>)))"

subsection \<open>Construction of the declared components\<close>

text \<open>The domains \<open>Boolean\<close> and \<open>PercentFraction\<close> of the framework.\<close>

definition Boolean :: "real \<Rightarrow> bool" where
  "Boolean v = (v = 0 \<or> v = 1)"

definition PercentFraction :: "real \<Rightarrow> bool" where
  "PercentFraction v = (0 \<le> v \<and> v \<le> 1)"

text \<open>
  \<open>Param(mod.FUELS, within=Boolean, default=False)\<close>: every loaded value
  must be indexed by a fuel and lie in the domain. Fuels without a loaded
  value get no stored value.
\<close>

definition construct_f_rps_eligible ::
    "model \<Rightarrow> (fuel \<times> real) list \<Rightarrow> py_error + (fuel \<rightharpoonup> bool)" where
  "construct_f_rps_eligible m loaded =
     (if list_all (\<lambda>(f, v). f \<in> set (FUELS m) \<and> Boolean v) loaded
      then Inr (map_of (map (\<lambda>(f, v). (f, v \<noteq> 0)) loaded))
      else Inl ValueError)"

text \<open>
  \<open>Set(validate=lambda m, p: p in m.PERIODS)\<close>: every loaded member must
  pass the rule; the set holds each member once, at the place of its first
  occurrence.
\<close>

definition construct_RPS_PERIODS :: "model \<Rightarrow> period list \<Rightarrow> py_error + period list" where
  "construct_RPS_PERIODS m loaded =
     (if list_all (\<lambda>p. p \<in> set (PERIODS m)) loaded
      then Inr (rev (remdups (rev loaded)))
      else Inl ValueError)"

text \<open>\<open>Param(mod.RPS_PERIODS, within=PercentFraction)\<close>.\<close>

definition construct_rps_target ::
    "period list \<Rightarrow> (period \<times> real) list \<Rightarrow> py_error + (period \<rightharpoonup> real)" where
  "construct_rps_target rps_periods loaded =
     (if list_all (\<lambda>(p, v). p \<in> set rps_periods \<and> PercentFraction v) loaded
      then Inr (map_of loaded)
      else Inl ValueError)"

text \<open>
  \<open>define_components\<close> declares the components; the framework constructs
  them from the loaded data in the order of their declaration, and the first
  failure ends the construction. The result is the model with the module's
  components attached.
\<close>

definition define_components :: "model \<Rightarrow> switch_data \<Rightarrow> py_error + model" where
  "define_components mdl data =
     (case construct_f_rps_eligible mdl (f_rps_eligible_loaded data) of
        Inl e \<Rightarrow> Inl e
      | Inr eligible \<Rightarrow>
     (case construct_RPS_PERIODS mdl (RPS_PERIODS_loaded data) of
        Inl e \<Rightarrow> Inl e
      | Inr periods \<Rightarrow>
     (case construct_rps_target periods (rps_target_loaded data) of
        Inl e \<Rightarrow> Inl e
      | Inr targets \<Rightarrow>
     (let m = mdl\<lparr>f_rps_eligible_values := eligible,
                  RPS_PERIODS := periods,
                  rps_target_values := targets\<rparr>
      in
     (case for_each (RPSFuelEnergy m) periods of
        Inl e \<Rightarrow> Inl e
      | Inr fuel_energy \<Rightarrow>
     (case for_each (RPS_Enforce_Target_rule m) periods of
        Inl e \<Rightarrow> Inl e
      | Inr constraints \<Rightarrow> Inr (m\<lparr>RPS_Enforce_Target := constraints\<rparr>)))))))"

subsection \<open>Reporting (post\_solve)\<close>

text \<open>
  A value that \<open>get_row\<close> puts into a row is a plain Python number, or a
  Pyomo expression. An expression is not evaluated when it is built: it
  stands here for what evaluating it at the values of the decision variables
  gives, a number or an exception.
\<close>

datatype entry = Number real | Expression "py_error + real"

text \<open>Pyomo's \<open>value(...)\<close>: the number itself, or the evaluation of the expression.\<close>

definition expr_value :: "entry \<Rightarrow> py_error + real" where
  "expr_value x = (case x of Number v \<Rightarrow> Inr v | Expression r \<Rightarrow> r)"

text \<open>
  \<open>a / b\<close> on such values. When the divisor is a number, a zero divisor
  raises at once, whether the dividend is a number or an expression. When the
  divisor is an expression, the quotient is a new expression and nothing is
  raised: the division takes place when the quotient is evaluated.
\<close>

definition py_truediv :: "entry \<Rightarrow> entry \<Rightarrow> py_error + entry" where
  "py_truediv a b =
     (case b of
        Number d \<Rightarrow>
          (if d = 0 then Inl ZeroDivisionError
           else Inr (case a of
                       Number v \<Rightarrow> Number (v / d)
                     | Expression r \<Rightarrow>
                         Expression (case r of Inl e \<Rightarrow> Inl e | Inr v \<Rightarrow> Inr (v / d))))
      | Expression s \<Rightarrow>
          Inr (Expression
                 (case expr_value a of
                    Inl e \<Rightarrow> Inl e
                  | Inr v \<Rightarrow> (case s of Inl e \<Rightarrow> Inl e | Inr d \<Rightarrow> py_div v d))))"

text \<open>
  The terms of the sum in \<open>total_generation_in_period\<close>, and the Python
  value the function returns: \<open>sum(...)\<close> of products with the decision
  variable \<open>DispatchGen\<close> is a Pyomo expression when the sum has a term, and
  the number 0 when it has none.
\<close>

definition generation_terms :: "model \<Rightarrow> period \<Rightarrow> (gen \<times> timepoint) list" where
  "generation_terms m p =
     [(g, t). g \<leftarrow> GENERATION_PROJECTS m, t \<leftarrow> TPS_FOR_GEN_IN_PERIOD m (g, p)]"

definition total_generation_in_period_py :: "model \<Rightarrow> period \<Rightarrow> entry" where
  "total_generation_in_period_py m p =
     (if generation_terms m p = [] then Number 0
      else Expression (Inr (total_generation_in_period m p)))"

text \<open>
  A row as \<open>get_row\<close> returns it: the period and six values in the order of
  the headings. A row as it is written: the period and six numbers.
\<close>

type_synonym row = "period \<times> entry \<times> entry \<times> entry \<times> entry \<times> entry \<times> entry"

type_synonym written_row = "period \<times> real \<times> real \<times> real \<times> real \<times> real \<times> real"

definition headings :: "string list" where
  "headings = [''PERIOD'', ''RPSFuelEnergyGWh'', ''RPSNonFuelEnergyGWh'',
               ''TotalGenerationInPeriodGWh'', ''RPSGenFraction'',
               ''TotalSalesInPeriodGWh'', ''RPSSalesFraction'']"

text \<open>
  \<open>get_row\<close>. \<open>m.RPSFuelEnergy[p]\<close>, \<open>m.RPSNonFuelEnergy[p]\<close> and their
  sum are Pyomo expressions, indexed by \<open>RPS_PERIODS\<close>: reading them at
  another period raises \<open>KeyError\<close>. \<open>total_demand_in_period(m, p)\<close> is
  a sum of parameter values, a number.
\<close>

definition get_row :: "model \<Rightarrow> period \<Rightarrow> py_error + row" where
  "get_row m p =
     (if p \<notin> set (RPS_PERIODS m) then Inl KeyError else
     (case RPSFuelEnergy m p of
        Inl e \<Rightarrow> Inl e
      | Inr fe \<Rightarrow>
     (case py_truediv (Expression (Inr fe)) (Number 1000) of
        Inl e \<Rightarrow> Inl e
      | Inr fuel_gwh \<Rightarrow>
     (case py_truediv (Expression (Inr (RPSNonFuelEnergy m p))) (Number 1000) of
        Inl e \<Rightarrow> Inl e
      | Inr non_fuel_gwh \<Rightarrow>
     (case py_truediv (total_generation_in_period_py m p) (Number 1000) of
        Inl e \<Rightarrow> Inl e
      | Inr generation_gwh \<Rightarrow>
     (case py_truediv (Expression (Inr (fe + RPSNonFuelEnergy m p)))
             (total_generation_in_period_py m p) of
        Inl e \<Rightarrow> Inl e
      | Inr gen_fraction \<Rightarrow>
     (case py_truediv (Expression (Inr (fe + RPSNonFuelEnergy m p)))
             (Number (total_demand_in_period m p)) of
        Inl e \<Rightarrow> Inl e
      | Inr sales_fraction \<Rightarrow>
          Inr (p,
               fuel_gwh,
               non_fuel_gwh,
               generation_gwh,
               gen_fraction,
               Number (total_demand_in_period m p),
               sales_fraction))))))))"

text \<open>
  Modelled from the spec: \<open>write_table\<close>, the host's reporting utility
  (\<open>switch_model.reporting\<close>), is not part of the module's source. By the
  spec the report has a fixed header and one row per period, whose statistics
  are computed from a solved model: for every member of the index set, in
  order, the row that \<open>values\<close> returns is written with each of its entries
  evaluated to a number. An exception of \<open>values\<close>, or of the evaluation of
  an entry, ends the report.
\<close>

definition evaluate_row :: "row \<Rightarrow> py_error + written_row" where
  "evaluate_row r =
     (case r of (p, c1, c2, c3, c4, c5, c6) \<Rightarrow>
     (case expr_value c1 of Inl e \<Rightarrow> Inl e | Inr v1 \<Rightarrow>
     (case expr_value c2 of Inl e \<Rightarrow> Inl e | Inr v2 \<Rightarrow>
     (case expr_value c3 of Inl e \<Rightarrow> Inl e | Inr v3 \<Rightarrow>
     (case expr_value c4 of Inl e \<Rightarrow> Inl e | Inr v4 \<Rightarrow>
     (case expr_value c5 of Inl e \<Rightarrow> Inl e | Inr v5 \<Rightarrow>
     (case expr_value c6 of Inl e \<Rightarrow> Inl e | Inr v6 \<Rightarrow>
        Inr (p, v1, v2, v3, v4, v5, v6))))))))"

definition write_table ::
    "model \<Rightarrow> period list \<Rightarrow> string list \<Rightarrow> (model \<Rightarrow> period \<Rightarrow> py_error + row) \<Rightarrow>
     py_error + (string list \<times> written_row list)" where
  "write_table instance indexes hdr values =
     (case for_each
             (\<lambda>i. case values instance i of Inl e \<Rightarrow> Inl e | Inr r \<Rightarrow> evaluate_row r)
             indexes of
        Inl e \<Rightarrow> Inl e
      | Inr rows \<Rightarrow> Inr (hdr, map snd rows))"

text \<open>
  \<open>post_solve\<close>: \<open>write_table\<close> over \<open>RPS_PERIODS\<close> with the headings
  and \<open>values=get_row\<close>.
\<close>

definition post_solve :: "model \<Rightarrow> py_error + (string list \<times> written_row list)" where
  "post_solve instance = write_table instance (RPS_PERIODS instance) headings get_row"

subsection \<open>Concrete models and inputs\<close>

text \<open>
  The end-to-end scenario: periods P1 and P2, one timepoint of weight 10 in
  each; a wind farm dispatched at 10, a biomass plant burning 4 units of fuel
  per hour and a coal plant burning 16, both at heat rate 2 (dispatched at 2
  and 8); one load zone whose demand in each period is \<open>d\<close>. The module's
  own components are not yet attached.
\<close>

definition scenario_model :: "real \<Rightarrow> model" where
  "scenario_model d =
     \<lparr>FUELS = [''Biomass'', ''Coal''],
      NON_FUEL_ENERGY_SOURCES = [''Wind''],
      PERIODS = [''P1'', ''P2''],
      LOAD_ZONES = [''Zone''],
      GENERATION_PROJECTS = [''wind_farm'', ''bio_plant'', ''coal_plant''],
      FUEL_BASED_GENS = [''bio_plant'', ''coal_plant''],
      NON_FUEL_BASED_GENS = [''wind_farm''],
      FUELS_FOR_GEN =
        (\<lambda>g. if g = ''bio_plant'' then [''Biomass'']
             else if g = ''coal_plant'' then [''Coal''] else []),
      TPS_FOR_GEN_IN_PERIOD =
        (\<lambda>(g, p). if p = ''P1'' then [1] else if p = ''P2'' then [2] else []),
      tp_weight = (\<lambda>t. 10),
      gen_full_load_heat_rate = (\<lambda>g. 2),
      zone_total_demand_in_period_mwh = (\<lambda>(z, p). d),
      DispatchGen =
        (\<lambda>(g, t). if g = ''wind_farm'' then 10
                  else if g = ''bio_plant'' then 2
                  else if g = ''coal_plant'' then 8 else 0),
      GenFuelUseRate =
        (\<lambda>(g, t, f). if g = ''bio_plant'' \<and> f = ''Biomass'' then 4
                     else if g = ''coal_plant'' \<and> f = ''Coal'' then 16 else 0),
      f_rps_eligible_values = Map.empty,
      RPS_PERIODS = [],
      rps_target_values = Map.empty,
      RPS_Enforce_Target = []\<rparr>"

text \<open>
  Its loaded data: biomass is flagged eligible and coal is not listed; the
  target is 0.5 for P1 and there is no row for P2.
\<close>

definition scenario_data :: switch_data where
  "scenario_data =
     \<lparr>f_rps_eligible_loaded = [(''Biomass'', 1)],
      RPS_PERIODS_loaded = [''P1''],
      rps_target_loaded = [(''P1'', 1 / 2)]\<rparr>"

text \<open>
  The reporting scenario: a solved instance with one RPS period, 2030, whose
  single timepoint has weight 1000. Wind is dispatched at 100, the biomass
  plant at 20 (burning 40 at heat rate 2) and the coal plant at 30; demand in
  the period is 140000.
\<close>

definition reporting_instance :: model where
  "reporting_instance =
     \<lparr>FUELS = [''Biomass'', ''Coal''],
      NON_FUEL_ENERGY_SOURCES = [''Wind''],
      PERIODS = [''2030''],
      LOAD_ZONES = [''Zone''],
      GENERATION_PROJECTS = [''wind_farm'', ''bio_plant'', ''coal_plant''],
      FUEL_BASED_GENS = [''bio_plant'', ''coal_plant''],
      NON_FUEL_BASED_GENS = [''wind_farm''],
      FUELS_FOR_GEN =
        (\<lambda>g. if g = ''bio_plant'' then [''Biomass'']
             else if g = ''coal_plant'' then [''Coal''] else []),
      TPS_FOR_GEN_IN_PERIOD = (\<lambda>(g, p). if p = ''2030'' then [1] else []),
      tp_weight = (\<lambda>t. 1000),
      gen_full_load_heat_rate = (\<lambda>g. 2),
      zone_total_demand_in_period_mwh = (\<lambda>(z, p). 140000),
      DispatchGen =
        (\<lambda>(g, t). if g = ''wind_farm'' then 100
                  else if g = ''bio_plant'' then 20
                  else if g = ''coal_plant'' then 30 else 0),
      GenFuelUseRate =
        (\<lambda>(g, t, f). if g = ''bio_plant'' \<and> f = ''Biomass'' then 40
                     else if g = ''coal_plant'' \<and> f = ''Coal'' then 60 else 0),
      f_rps_eligible_values = [''Biomass'' \<mapsto> True],
      RPS_PERIODS = [''2030''],
      rps_target_values = [''2030'' \<mapsto> 1 / 2],
      RPS_Enforce_Target =
        [(''2030'', \<lparr>ge_lhs = 120000, ge_rhs = 70000\<rparr>)]\<rparr>"

text \<open>
  The data the reporting instance is constructed from: \<open>define_components\<close>
  on the instance and these data returns the instance itself.
\<close>

definition reporting_data :: switch_data where
  "reporting_data =
     \<lparr>f_rps_eligible_loaded = [(''Biomass'', 1)],
      RPS_PERIODS_loaded = [''2030''],
      rps_target_loaded = [(''2030'', 1 / 2)]\<rparr>"

text \<open>
  The scenario after construction: what \<open>define_components\<close> returns on
  \<open>scenario_model d\<close> and \<open>scenario_data\<close> (lemma \<open>define_components_scenario\<close>).
\<close>

definition scenario_instance :: "real \<Rightarrow> model" where
  "scenario_instance d =
     (scenario_model d)
       \<lparr>f_rps_eligible_values := [''Biomass'' \<mapsto> True],
        RPS_PERIODS := [''P1''],
        rps_target_values := [''P1'' \<mapsto> 1 / 2],
        RPS_Enforce_Target := [(''P1'', \<lparr>ge_lhs = 120, ge_rhs = d / 2\<rparr>)]\<rparr>"

text \<open>
  An inputs directory for the scenario in which fuels.tab has no
  \<open>f_rps_eligible\<close> column, the data portal before loading, what
  \<open>load_inputs\<close> makes of the directory (lemma \<open>load_inputs_scenario\<close>), and
  the instance constructed from that (lemma \<open>define_components_unflagged\<close>):
  no fuel is eligible, and the constraint of P1 is \<open>100 >= 100\<close>.
\<close>

definition scenario_inputs_dir :: inputs_dir where
  "scenario_inputs_dir =
     [''fuels.tab'' \<mapsto> \<lparr>index_column = [''Biomass'', ''Coal''], value_columns = []\<rparr>,
      ''rps_targets.tab'' \<mapsto>
        \<lparr>index_column = [''P1''], value_columns = [(''rps_target'', [1 / 2])]\<rparr>]"

definition empty_switch_data :: switch_data where
  "empty_switch_data =
     \<lparr>f_rps_eligible_loaded = [], RPS_PERIODS_loaded = [], rps_target_loaded = []\<rparr>"

definition scenario_loaded :: switch_data where
  "scenario_loaded =
     \<lparr>f_rps_eligible_loaded = [],
      RPS_PERIODS_loaded = [''P1''],
      rps_target_loaded = [(''P1'', 1 / 2)]\<rparr>"

definition unflagged_instance :: model where
  "unflagged_instance =
     (scenario_model 200)
       \<lparr>f_rps_eligible_values := Map.empty,
        RPS_PERIODS := [''P1''],
        rps_target_values := [''P1'' \<mapsto> 1 / 2],
        RPS_Enforce_Target := [(''P1'', \<lparr>ge_lhs = 100, ge_rhs = 100\<rparr>)]\<rparr>"

text \<open>
  The scenario with demand 200 in which nothing is dispatched and no fuel is
  burnt, with a target of 0 for P1: its loaded data, and the instance
  constructed from them (lemma \<open>define_components_idle\<close>), whose constraint
  for P1 is \<open>0 >= 0\<close>.
\<close>

definition idle_model :: model where
  "idle_model = (scenario_model 200)\<lparr>DispatchGen := (\<lambda>gt. 0), GenFuelUseRate := (\<lambda>gtf. 0)\<rparr>"

definition idle_data :: switch_data where
  "idle_data =
     \<lparr>f_rps_eligible_loaded = [(''Biomass'', 1)],
      RPS_PERIODS_loaded = [''P1''],
      rps_target_loaded = [(''P1'', 0)]\<rparr>"

definition idle_instance :: model where
  "idle_instance =
     idle_model
       \<lparr>f_rps_eligible_values := [''Biomass'' \<mapsto> True],
        RPS_PERIODS := [''P1''],
        rps_target_values := [''P1'' \<mapsto> 0],
        RPS_Enforce_Target := [(''P1'', \<lparr>ge_lhs = 0, ge_rhs = 0\<rparr>)]\<rparr>"

section \<open>Properties\<close>

subsection \<open>Auxiliary facts\<close>

lemma for_each_Inr_member:
  "for_each rule xs = Inr vs \<Longrightarrow> i \<in> set xs \<Longrightarrow> \<exists>v. rule i = Inr v \<and> (i, v) \<in> set vs"
proof (induction xs arbitrary: vs)
  case Nil
  then show ?case by simp
next
  case (Cons x xs)
  from Cons.prems(1) obtain v ws where
    x: "rule x = Inr v" and ws: "for_each rule xs = Inr ws" and vs: "vs = (x, v) # ws"
    by (auto split: sum.splits)
  show ?case
  proof (cases "i = x")
    case True
    with x vs show ?thesis by auto
  next
    case False
    with Cons.prems(2) have "i \<in> set xs" by simp
    from Cons.IH [OF ws this] vs show ?thesis by auto
  qed
qed

lemma for_each_Inl: "for_each rule xs = Inl e \<Longrightarrow> \<exists>i\<in>set xs. rule i = Inl e"
  by (induction xs) (auto split: sum.splits)

lemma for_each_fails:
  "i \<in> set xs \<Longrightarrow> rule i = Inl e \<Longrightarrow> \<exists>e'. for_each rule xs = Inl e'"
  by (induction xs) (auto split: sum.splits)

lemma py_sum_Inl: "py_sum xs = Inl e \<Longrightarrow> Inl e \<in> set xs"
  by (induction xs) (auto split: sum.splits)

lemma py_sum_map_Inr: "py_sum (map Inr vs) = Inr (sum_list vs)"
  by (induction vs) auto

lemma py_div_Inl: "py_div a b = Inl e \<Longrightarrow> e = ZeroDivisionError"
  by (simp add: py_div_def split: if_splits)

lemma RPSFuelEnergy_Inl: "RPSFuelEnergy m p = Inl e \<Longrightarrow> e = ZeroDivisionError"
  by (auto simp: RPSFuelEnergy_def RPSFuelEnergy_term_def py_div_def dest!: py_sum_Inl split: if_splits)

lemma RPSFuelEnergy_term_value:
  "gen_full_load_heat_rate m g \<noteq> 0 \<Longrightarrow>
   RPSFuelEnergy_term m g t =
     Inr (tp_weight m t *
            (\<Sum>f\<leftarrow>filter (f_rps_eligible m) (FUELS_FOR_GEN m g). GenFuelUseRate m (g, t, f)) /
          gen_full_load_heat_rate m g)"
  by (simp add: RPSFuelEnergy_term_def py_div_def)

lemma sum_list_concat_map:
  fixes f :: "'a \<Rightarrow> real list"
  shows "sum_list (concat (map f xs)) = (\<Sum>x\<leftarrow>xs. sum_list (f x))"
  by (induction xs) auto

lemma RPSFuelEnergy_value:
  assumes "\<forall>g\<in>set (FUEL_BASED_GENS m). gen_full_load_heat_rate m g \<noteq> 0"
  shows "RPSFuelEnergy m p =
     Inr (\<Sum>g\<leftarrow>FUEL_BASED_GENS m. \<Sum>t\<leftarrow>TPS_FOR_GEN_IN_PERIOD m (g, p).
            tp_weight m t *
              (\<Sum>f\<leftarrow>filter (f_rps_eligible m) (FUELS_FOR_GEN m g). GenFuelUseRate m (g, t, f)) /
            gen_full_load_heat_rate m g)"
proof -
  let ?v = "\<lambda>g t. tp_weight m t *
              (\<Sum>f\<leftarrow>filter (f_rps_eligible m) (FUELS_FOR_GEN m g). GenFuelUseRate m (g, t, f)) /
            gen_full_load_heat_rate m g"
  have "[RPSFuelEnergy_term m g t. g \<leftarrow> FUEL_BASED_GENS m, t \<leftarrow> TPS_FOR_GEN_IN_PERIOD m (g, p)] =
        map Inr [?v g t. g \<leftarrow> FUEL_BASED_GENS m, t \<leftarrow> TPS_FOR_GEN_IN_PERIOD m (g, p)]"
    using assms by (simp add: map_concat comp_def RPSFuelEnergy_term_value cong: map_cong)
  then show ?thesis
    by (simp only: RPSFuelEnergy_def py_sum_map_Inr sum_list_concat_map)
qed

lemma sum_list_filter_mono:
  fixes h :: "'a \<Rightarrow> real"
  assumes "\<forall>x\<in>set xs. 0 \<le> h x" and "\<forall>x\<in>set xs. P x \<longrightarrow> Q x"
  shows "(\<Sum>x\<leftarrow>filter P xs. h x) \<le> (\<Sum>x\<leftarrow>filter Q xs. h x)"
  using assms by (induction xs) auto

lemma f_rps_eligible_update:
  "f_rps_eligible (m\<lparr>f_rps_eligible_values := (f_rps_eligible_values m)(f \<mapsto> True)\<rparr>) x =
     (x = f \<or> f_rps_eligible m x)"
  by (simp add: f_rps_eligible_def)

lemma define_components_Inr:
  assumes "define_components mdl data = Inr m"
  obtains eligible periods targets cs where
    "construct_f_rps_eligible mdl (f_rps_eligible_loaded data) = Inr eligible"
    "construct_RPS_PERIODS mdl (RPS_PERIODS_loaded data) = Inr periods"
    "construct_rps_target periods (rps_target_loaded data) = Inr targets"
    "for_each (RPS_Enforce_Target_rule
       (mdl\<lparr>f_rps_eligible_values := eligible, RPS_PERIODS := periods,
            rps_target_values := targets\<rparr>)) periods = Inr cs"
    "m = mdl\<lparr>f_rps_eligible_values := eligible, RPS_PERIODS := periods,
            rps_target_values := targets, RPS_Enforce_Target := cs\<rparr>"
  using assms unfolding define_components_def Let_def
  by (auto split: sum.splits)

lemma f_rps_eligible_frame:
  "f_rps_eligible (m\<lparr>RPS_Enforce_Target := cs\<rparr>) = f_rps_eligible m"
  by (rule ext) (simp add: f_rps_eligible_def)

lemma RPSFuelEnergy_frame:
  "RPSFuelEnergy (m\<lparr>RPS_Enforce_Target := cs\<rparr>) p = RPSFuelEnergy m p"
  by (simp add: RPSFuelEnergy_def RPSFuelEnergy_term_def f_rps_eligible_frame)

lemma RPSNonFuelEnergy_frame:
  "RPSNonFuelEnergy (m\<lparr>RPS_Enforce_Target := cs\<rparr>) p = RPSNonFuelEnergy m p"
  by (simp add: RPSNonFuelEnergy_def)

lemma rps_target_frame:
  "rps_target (m\<lparr>RPS_Enforce_Target := cs\<rparr>) p = rps_target m p"
  by (simp add: rps_target_def)

lemma total_demand_in_period_frame:
  "total_demand_in_period (m\<lparr>RPS_Enforce_Target := cs\<rparr>) p = total_demand_in_period m p"
  by (simp add: total_demand_in_period_def)

lemma define_components_scenario:
  "define_components (scenario_model d) scenario_data = Inr (scenario_instance d)"
  by (simp add: define_components_def scenario_model_def scenario_data_def scenario_instance_def
      construct_f_rps_eligible_def construct_RPS_PERIODS_def construct_rps_target_def
      Boolean_def PercentFraction_def RPSFuelEnergy_def RPSFuelEnergy_term_def
      f_rps_eligible_def py_div_def RPS_Enforce_Target_rule_def rps_target_def
      RPSNonFuelEnergy_def total_demand_in_period_def)

lemma scenario_RPSFuelEnergy: "RPSFuelEnergy (scenario_instance d) ''P1'' = Inr 20"
  by (simp add: scenario_instance_def scenario_model_def RPSFuelEnergy_def
      RPSFuelEnergy_term_def f_rps_eligible_def py_div_def)

lemma scenario_RPSNonFuelEnergy: "RPSNonFuelEnergy (scenario_instance d) ''P1'' = 100"
  by (simp add: scenario_instance_def scenario_model_def RPSNonFuelEnergy_def)

lemma scenario_rps_target: "rps_target (scenario_instance d) ''P1'' = Inr (1 / 2)"
  by (simp add: scenario_instance_def scenario_model_def rps_target_def)

lemma scenario_demand:
  "(\<Sum>z\<leftarrow>LOAD_ZONES (scenario_instance d).
      zone_total_demand_in_period_mwh (scenario_instance d) (z, ''P1'')) = d"
  by (simp add: scenario_instance_def scenario_model_def)

lemma scenario_feasible: "feasible (scenario_instance d) = (d / 2 \<le> 120)"
  by (simp add: scenario_instance_def feasible_def satisfied_def)

lemma define_components_idle:
  "define_components idle_model idle_data = Inr idle_instance"
  by (simp add: define_components_def idle_model_def idle_data_def idle_instance_def
      scenario_model_def construct_f_rps_eligible_def construct_RPS_PERIODS_def
      construct_rps_target_def Boolean_def PercentFraction_def RPSFuelEnergy_def
      RPSFuelEnergy_term_def f_rps_eligible_def py_div_def RPS_Enforce_Target_rule_def
      rps_target_def RPSNonFuelEnergy_def total_demand_in_period_def)

lemma py_truediv_1000:
  "py_truediv a (Number 1000) =
     Inr (case a of
            Number v \<Rightarrow> Number (v / 1000)
          | Expression r \<Rightarrow> Expression (case r of Inl e \<Rightarrow> Inl e | Inr v \<Rightarrow> Inr (v / 1000)))"
  by (simp add: py_truediv_def)

lemma py_truediv_Inl: "py_truediv a b = Inl e \<Longrightarrow> e = ZeroDivisionError"
  by (auto simp: py_truediv_def split: entry.splits if_splits)

lemma construct_f_rps_eligible_Inl:
  "construct_f_rps_eligible m loaded = Inl e \<Longrightarrow> e = ValueError"
  by (simp add: construct_f_rps_eligible_def split: if_splits)

lemma construct_RPS_PERIODS_Inl:
  "construct_RPS_PERIODS m loaded = Inl e \<Longrightarrow> e = ValueError"
  by (simp add: construct_RPS_PERIODS_def split: if_splits)

lemma define_components_bad_period:
  assumes "construct_RPS_PERIODS mdl (RPS_PERIODS_loaded data) = Inl ValueError"
  shows "define_components mdl data = Inl ValueError"
  using assms unfolding define_components_def
  by (auto split: sum.splits dest: construct_f_rps_eligible_Inl)

lemma define_components_bad_target:
  assumes "\<And>periods. construct_rps_target periods (rps_target_loaded data) = Inl ValueError"
  shows "define_components mdl data = Inl ValueError"
  using assms unfolding define_components_def
  by (auto split: sum.splits dest: construct_f_rps_eligible_Inl construct_RPS_PERIODS_Inl)

lemma scenario_inputs_dir_fuels:
  "scenario_inputs_dir ''fuels.tab'' =
     Some \<lparr>index_column = [''Biomass'', ''Coal''], value_columns = []\<rparr>"
  by (simp add: scenario_inputs_dir_def)

lemma scenario_inputs_dir_targets:
  "scenario_inputs_dir ''rps_targets.tab'' =
     Some \<lparr>index_column = [''P1''], value_columns = [(''rps_target'', [1 / 2])]\<rparr>"
  by (simp add: scenario_inputs_dir_def)

lemma load_inputs_scenario:
  "load_inputs empty_switch_data scenario_inputs_dir = Inr scenario_loaded"
  by (simp add: load_inputs_def load_aug_def scenario_inputs_dir_fuels
      scenario_inputs_dir_targets empty_switch_data_def scenario_loaded_def)

lemma define_components_unflagged:
  "define_components (scenario_model 200) scenario_loaded = Inr unflagged_instance"
  by (simp add: define_components_def scenario_model_def scenario_loaded_def
      unflagged_instance_def construct_f_rps_eligible_def construct_RPS_PERIODS_def
      construct_rps_target_def PercentFraction_def RPSFuelEnergy_def RPSFuelEnergy_term_def
      f_rps_eligible_def py_div_def RPS_Enforce_Target_rule_def rps_target_def
      RPSNonFuelEnergy_def total_demand_in_period_def)

lemma define_components_f_rps_eligible_values:
  assumes "define_components mdl data = Inr m"
  shows "f_rps_eligible_values m =
     map_of (map (\<lambda>(f, v). (f, v \<noteq> 0)) (f_rps_eligible_loaded data))"
proof -
  from assms obtain eligible periods targets cs where
    e: "construct_f_rps_eligible mdl (f_rps_eligible_loaded data) = Inr eligible"
    and m: "m = mdl\<lparr>f_rps_eligible_values := eligible, RPS_PERIODS := periods,
                rps_target_values := targets, RPS_Enforce_Target := cs\<rparr>"
    by (rule define_components_Inr)
  from e have "eligible = map_of (map (\<lambda>(f, v). (f, v \<noteq> 0)) (f_rps_eligible_loaded data))"
    by (simp add: construct_f_rps_eligible_def split: if_splits)
  with m show ?thesis by simp
qed

lemma load_inputs_absent_column:
  assumes "load_inputs sd inputs_dir = Inr data"
    and "inputs_dir ''fuels.tab'' = Some tab"
    and "''f_rps_eligible'' \<notin> fst ` set (value_columns tab)"
  shows "f_rps_eligible_loaded data = []"
proof -
  from assms(3) have "map_of (value_columns tab) ''f_rps_eligible'' = None"
    by (simp add: map_of_eq_None_iff)
  with assms(1,2) show ?thesis
    by (auto simp: load_inputs_def load_aug_def split: sum.splits option.splits if_splits)
qed

lemma RPSFuelEnergy_ineligible_fuel:
  assumes inel: "\<not> f_rps_eligible m f"
    and rate: "\<forall>g t f'. f' \<noteq> f \<longrightarrow> rate (g, t, f') = GenFuelUseRate m (g, t, f')"
  shows "RPSFuelEnergy (m\<lparr>GenFuelUseRate := rate\<rparr>) p = RPSFuelEnergy m p"
proof -
  have el: "f_rps_eligible (m\<lparr>GenFuelUseRate := rate\<rparr>) = f_rps_eligible m"
    by (rule ext) (simp add: f_rps_eligible_def)
  have eq: "map (\<lambda>f'. rate (g, t, f')) (filter (f_rps_eligible m) (FUELS_FOR_GEN m g)) =
        map (\<lambda>f'. GenFuelUseRate m (g, t, f')) (filter (f_rps_eligible m) (FUELS_FOR_GEN m g))"
    for g t
  proof (intro map_cong refl)
    fix f' assume "f' \<in> set (filter (f_rps_eligible m) (FUELS_FOR_GEN m g))"
    then have "f_rps_eligible m f'" by simp
    with inel have "f' \<noteq> f" by auto
    with rate show "rate (g, t, f') = GenFuelUseRate m (g, t, f')" by simp
  qed
  have "RPSFuelEnergy_term (m\<lparr>GenFuelUseRate := rate\<rparr>) g t = RPSFuelEnergy_term m g t"
    for g t
    by (simp add: RPSFuelEnergy_term_def el eq)
  then show ?thesis
    by (simp add: RPSFuelEnergy_def)
qed

subsection \<open>The enforcement constraint\<close>

text \<open>
  C1. Whenever the components are constructed and the solution is feasible,
  then for every period \<open>p\<close> of \<open>RPS_PERIODS\<close> both \<open>RPSFuelEnergy[p]\<close>
  and \<open>rps_target[p]\<close> have values, and
  \<open>RPSFuelEnergy[p] + RPSNonFuelEnergy[p] >= rps_target[p] * D\<close>, where \<open>D\<close>
  is the sum of \<open>zone_total_demand_in_period_mwh[z, p]\<close> over all load zones
  \<open>z\<close>.
\<close>

theorem RPS_Enforce_Target_holds:
  assumes built: "define_components mdl data = Inr m"
    and feas: "feasible m"
    and p: "p \<in> set (RPS_PERIODS m)"
  shows "\<exists>fe tgt. RPSFuelEnergy m p = Inr fe \<and> rps_target m p = Inr tgt \<and>
           tgt * (\<Sum>z\<leftarrow>LOAD_ZONES m. zone_total_demand_in_period_mwh m (z, p))
             \<le> fe + RPSNonFuelEnergy m p"
proof -
  from built obtain eligible periods targets cs where
    cs: "for_each (RPS_Enforce_Target_rule
           (mdl\<lparr>f_rps_eligible_values := eligible, RPS_PERIODS := periods,
                rps_target_values := targets\<rparr>)) periods = Inr cs"
    and m: "m = mdl\<lparr>f_rps_eligible_values := eligible, RPS_PERIODS := periods,
                rps_target_values := targets, RPS_Enforce_Target := cs\<rparr>"
    by (rule define_components_Inr)
  let ?m1 = "mdl\<lparr>f_rps_eligible_values := eligible, RPS_PERIODS := periods,
                rps_target_values := targets\<rparr>"
  have m': "m = ?m1\<lparr>RPS_Enforce_Target := cs\<rparr>" using m by simp
  from p m have "p \<in> set periods" by simp
  from for_each_Inr_member [OF cs this] obtain c where
    rule: "RPS_Enforce_Target_rule ?m1 p = Inr c" and mem: "(p, c) \<in> set cs"
    by blast
  from feas mem m have sat: "satisfied c"
    by (auto simp: feasible_def list_all_iff)
  from rule obtain fe tgt where
    fe: "RPSFuelEnergy ?m1 p = Inr fe" and tgt: "rps_target ?m1 p = Inr tgt"
    and c: "c = \<lparr>ge_lhs = fe + RPSNonFuelEnergy ?m1 p,
                ge_rhs = tgt * total_demand_in_period ?m1 p\<rparr>"
    by (auto simp: RPS_Enforce_Target_rule_def split: sum.splits)
  have "RPSFuelEnergy m p = Inr fe"
    unfolding m' RPSFuelEnergy_frame by (rule fe)
  moreover have "rps_target m p = Inr tgt"
    unfolding m' rps_target_frame by (rule tgt)
  moreover have "tgt * total_demand_in_period m p \<le> fe + RPSNonFuelEnergy m p"
    unfolding m' total_demand_in_period_frame RPSNonFuelEnergy_frame
    using sat c by (simp add: satisfied_def)
  ultimately show ?thesis
    by (auto simp: total_demand_in_period_def)
qed

text \<open>
  The scenario with demand 200 is feasible: 120 units of eligible energy
  against a requirement of 100.
\<close>

theorem RPS_Enforce_Target_holds_witness:
  "define_components (scenario_model 200) scenario_data = Inr (scenario_instance 200) \<and>
   feasible (scenario_instance 200) \<and>
   ''P1'' \<in> set (RPS_PERIODS (scenario_instance 200)) \<and>
   RPSFuelEnergy (scenario_instance 200) ''P1'' = Inr 20 \<and>
   rps_target (scenario_instance 200) ''P1'' = Inr (1 / 2) \<and>
   1 / 2 * (\<Sum>z\<leftarrow>LOAD_ZONES (scenario_instance 200).
              zone_total_demand_in_period_mwh (scenario_instance 200) (z, ''P1''))
     \<le> 20 + RPSNonFuelEnergy (scenario_instance 200) ''P1''"
proof -
  have built: "define_components (scenario_model 200) scenario_data = Inr (scenario_instance 200)"
    by (rule define_components_scenario)
  have feas: "feasible (scenario_instance 200)"
    by (simp add: scenario_feasible)
  have p: "''P1'' \<in> set (RPS_PERIODS (scenario_instance 200))"
    by (simp add: scenario_instance_def)
  from RPS_Enforce_Target_holds [OF built feas p] built feas p show ?thesis
    by (simp add: scenario_RPSFuelEnergy scenario_rps_target scenario_demand
        scenario_RPSNonFuelEnergy)
qed

subsection \<open>The report row\<close>

text \<open>
  C2. The reporting scenario is an instance as the construction yields it,
  with \<open>RPSFuelEnergy\<close> 20000,
  \<open>RPSNonFuelEnergy\<close> 100000, total generation 150000 and total demand
  140000 in its period. The row \<open>get_row\<close> computes for it holds 20, 100 and
  150 in the three energy columns, 0.8 for \<open>RPSGenFraction\<close> and 6/7 for
  \<open>RPSSalesFraction\<close>; under the heading \<open>TotalSalesInPeriodGWh\<close> it
  holds the total demand as it is, 140000, since that entry alone is not
  divided by 1000. The report is the headings and this one row, with these
  numbers.
\<close>

theorem get_row_reporting_instance:
  "define_components reporting_instance reporting_data = Inr reporting_instance \<and>
   RPSFuelEnergy reporting_instance ''2030'' = Inr 20000 \<and>
   RPSNonFuelEnergy reporting_instance ''2030'' = 100000 \<and>
   total_generation_in_period reporting_instance ''2030'' = 150000 \<and>
   total_demand_in_period reporting_instance ''2030'' = 140000 \<and>
   get_row reporting_instance ''2030'' =
     Inr (''2030'', Expression (Inr 20), Expression (Inr 100), Expression (Inr 150),
          Expression (Inr (4 / 5)), Number 140000, Expression (Inr (6 / 7))) \<and>
   post_solve reporting_instance =
     Inr (headings, [(''2030'', 20, 100, 150, 4 / 5, 140000, 6 / 7)])"
  by (simp add: post_solve_def write_table_def evaluate_row_def expr_value_def get_row_def
      py_truediv_def total_generation_in_period_py_def generation_terms_def
      reporting_instance_def RPSFuelEnergy_def
      RPSFuelEnergy_term_def f_rps_eligible_def py_div_def RPSNonFuelEnergy_def
      total_demand_in_period_def total_generation_in_period_def
      define_components_def reporting_data_def construct_f_rps_eligible_def
      construct_RPS_PERIODS_def construct_rps_target_def Boolean_def PercentFraction_def
      RPS_Enforce_Target_rule_def rps_target_def)

subsection \<open>The eligible energy sources\<close>

text \<open>
  C3. \<open>RPS_ENERGY_SOURCES\<close> is exactly the union of
  \<open>NON_FUEL_ENERGY_SOURCES\<close> and the fuels of \<open>FUELS\<close> whose
  \<open>f_rps_eligible\<close> is true: an element belongs to it if and only if it is a
  non-fuel energy source or an eligible fuel.
\<close>

theorem RPS_ENERGY_SOURCES_is_union:
  "RPS_ENERGY_SOURCES m =
     set (NON_FUEL_ENERGY_SOURCES m) \<union> {f. f \<in> set (FUELS m) \<and> f_rps_eligible m f} \<and>
   (x \<in> RPS_ENERGY_SOURCES m) =
     (x \<in> set (NON_FUEL_ENERGY_SOURCES m) \<or> (x \<in> set (FUELS m) \<and> f_rps_eligible m x))"
  by (auto simp: RPS_ENERGY_SOURCES_def)

subsection \<open>The default of the eligibility flag\<close>

text \<open>
  C4. Let \<open>f\<close> be a fuel of \<open>FUELS\<close> to which input loading assigns no
  eligibility value: it has no value among the loaded ones, or fuels.tab has
  no \<open>f_rps_eligible\<close> column at all. Then \<open>f_rps_eligible[f]\<close> is false;
  \<open>f\<close> is outside \<open>RPS_ENERGY_SOURCES\<close> (as a fuel; the set holds every
  non-fuel energy source, so a name that is listed there as well stays in);
  and \<open>f\<close> contributes nothing to \<open>RPSFuelEnergy\<close>: in every period the
  expression is the same whatever the fuel use rates of \<open>f\<close> are.
\<close>

theorem f_rps_eligible_defaults_to_False:
  assumes loaded: "load_inputs sd inputs_dir = Inr data"
    and built: "define_components mdl data = Inr m"
    and fuel: "f \<in> set (FUELS m)"
    and unassigned:
      "f \<notin> fst ` set (f_rps_eligible_loaded data) \<or>
       (\<exists>tab. inputs_dir ''fuels.tab'' = Some tab \<and>
              ''f_rps_eligible'' \<notin> fst ` set (value_columns tab))"
  shows "\<not> f_rps_eligible m f \<and>
         (f \<notin> set (NON_FUEL_ENERGY_SOURCES m) \<longrightarrow> f \<notin> RPS_ENERGY_SOURCES m) \<and>
         (\<forall>rate p. (\<forall>g t f'. f' \<noteq> f \<longrightarrow> rate (g, t, f') = GenFuelUseRate m (g, t, f')) \<longrightarrow>
            RPSFuelEnergy (m\<lparr>GenFuelUseRate := rate\<rparr>) p = RPSFuelEnergy m p)"
proof -
  from unassigned have "f \<notin> fst ` set (f_rps_eligible_loaded data)"
    using load_inputs_absent_column [OF loaded] by auto
  then have "f \<notin> fst ` set (map (\<lambda>(f, v). (f, v \<noteq> 0)) (f_rps_eligible_loaded data))"
    by (auto simp: image_iff)
  then have "f_rps_eligible_values m f = None"
    unfolding define_components_f_rps_eligible_values [OF built]
    by (simp only: map_of_eq_None_iff not_False_eq_True)
  then have inel: "\<not> f_rps_eligible m f"
    by (simp add: f_rps_eligible_def)
  then have "f \<notin> set (NON_FUEL_ENERGY_SOURCES m) \<longrightarrow> f \<notin> RPS_ENERGY_SOURCES m"
    by (simp add: RPS_ENERGY_SOURCES_def)
  with inel show ?thesis
    using RPSFuelEnergy_ineligible_fuel [OF inel] by blast
qed

text \<open>
  Loaded from the directory without the column, coal is not eligible, and
  raising its fuel use rate to 1000 everywhere leaves \<open>RPSFuelEnergy\<close> of P1
  unchanged.
\<close>

theorem f_rps_eligible_defaults_to_False_witness:
  "scenario_inputs_dir ''fuels.tab'' =
     Some \<lparr>index_column = [''Biomass'', ''Coal''], value_columns = []\<rparr> \<and>
   load_inputs empty_switch_data scenario_inputs_dir = Inr scenario_loaded \<and>
   define_components (scenario_model 200) scenario_loaded = Inr unflagged_instance \<and>
   ''Coal'' \<in> set (FUELS unflagged_instance) \<and>
   \<not> f_rps_eligible unflagged_instance ''Coal'' \<and>
   ''Coal'' \<notin> RPS_ENERGY_SOURCES unflagged_instance \<and>
   RPSFuelEnergy
     (unflagged_instance
        \<lparr>GenFuelUseRate :=
           (\<lambda>(g, t, f'). if f' = ''Coal'' then 1000 else GenFuelUseRate unflagged_instance (g, t, f'))\<rparr>)
     ''P1'' = RPSFuelEnergy unflagged_instance ''P1''"
proof -
  have fuel: "''Coal'' \<in> set (FUELS unflagged_instance)"
    by (simp add: unflagged_instance_def scenario_model_def)
  have unassigned:
    "''Coal'' \<notin> fst ` set (f_rps_eligible_loaded scenario_loaded) \<or>
       (\<exists>tab. scenario_inputs_dir ''fuels.tab'' = Some tab \<and>
              ''f_rps_eligible'' \<notin> fst ` set (value_columns tab))"
    by (simp add: scenario_inputs_dir_fuels)
  have nonfuel: "''Coal'' \<notin> set (NON_FUEL_ENERGY_SOURCES unflagged_instance)"
    by (simp add: unflagged_instance_def scenario_model_def)
  have rate: "\<forall>g t f'. f' \<noteq> ''Coal'' \<longrightarrow>
      (\<lambda>(g, t, f'). if f' = ''Coal'' then 1000 else GenFuelUseRate unflagged_instance (g, t, f'))
        (g, t, f') = GenFuelUseRate unflagged_instance (g, t, f')"
    by simp
  from f_rps_eligible_defaults_to_False
    [OF load_inputs_scenario define_components_unflagged fuel unassigned] nonfuel rate
  show ?thesis
    using load_inputs_scenario define_components_unflagged fuel scenario_inputs_dir_fuels
    by blast
qed

subsection \<open>The end-to-end scenario\<close>

text \<open>
  C5. In the scenario (periods P1 and P2, target 0.5 for P1 only, 100 units
  of non-fuel energy, 20 units from the eligible fuel and 80 from the
  ineligible one in P1, total demand \<open>d\<close>) the construction succeeds,
  \<open>RPS_PERIODS\<close> is P1 alone, and \<open>RPS_Enforce_Target\<close> holds exactly one
  constraint: for P1, \<open>120 >= 0.5 * d\<close>. There is no constraint for P2.
\<close>

theorem scenario_enforcement:
  "define_components (scenario_model d) scenario_data = Inr (scenario_instance d) \<and>
   PERIODS (scenario_instance d) = [''P1'', ''P2''] \<and>
   RPS_PERIODS (scenario_instance d) = [''P1''] \<and>
   rps_target (scenario_instance d) ''P1'' = Inr (1 / 2) \<and>
   rps_target (scenario_instance d) ''P2'' = Inl KeyError \<and>
   RPSNonFuelEnergy (scenario_instance d) ''P1'' = 100 \<and>
   RPSFuelEnergy (scenario_instance d) ''P1'' = Inr 20 \<and>
   total_generation_in_period (scenario_instance d) ''P1'' = 200 \<and>
   total_demand_in_period (scenario_instance d) ''P1'' = d \<and>
   RPS_Enforce_Target (scenario_instance d) = [(''P1'', \<lparr>ge_lhs = 120, ge_rhs = 1 / 2 * d\<rparr>)] \<and>
   map_of (RPS_Enforce_Target (scenario_instance d)) ''P2'' = None \<and>
   feasible (scenario_instance d) = (1 / 2 * d \<le> 120)"
  by (simp add: define_components_scenario scenario_RPSFuelEnergy scenario_RPSNonFuelEnergy
      scenario_rps_target scenario_feasible)
    (simp add: scenario_instance_def scenario_model_def rps_target_def
      total_generation_in_period_def total_demand_in_period_def)

subsection \<open>Validation of the loaded periods and targets\<close>

text \<open>
  C6. If a loaded member of \<open>RPS_PERIODS\<close> is not in \<open>PERIODS\<close>, the
  construction of the set fails its validation rule with \<open>ValueError\<close>, and
  so does the construction of the components as a whole. If every loaded
  member is in \<open>PERIODS\<close>, the set is constructed and holds exactly the
  loaded members.
\<close>

theorem RPS_PERIODS_validation:
  "(p \<in> set (RPS_PERIODS_loaded data) \<and> p \<notin> set (PERIODS mdl) \<longrightarrow>
      construct_RPS_PERIODS mdl (RPS_PERIODS_loaded data) = Inl ValueError \<and>
      define_components mdl data = Inl ValueError) \<and>
   (set (RPS_PERIODS_loaded data) \<subseteq> set (PERIODS mdl) \<longrightarrow>
      (\<exists>ps. construct_RPS_PERIODS mdl (RPS_PERIODS_loaded data) = Inr ps \<and>
            set ps = set (RPS_PERIODS_loaded data)))"
proof (intro conjI impI)
  assume bad: "p \<in> set (RPS_PERIODS_loaded data) \<and> p \<notin> set (PERIODS mdl)"
  then show fails: "construct_RPS_PERIODS mdl (RPS_PERIODS_loaded data) = Inl ValueError"
    by (auto simp: construct_RPS_PERIODS_def list_all_iff)
  then show "define_components mdl data = Inl ValueError"
    by (rule define_components_bad_period)
next
  assume "set (RPS_PERIODS_loaded data) \<subseteq> set (PERIODS mdl)"
  then show "\<exists>ps. construct_RPS_PERIODS mdl (RPS_PERIODS_loaded data) = Inr ps \<and>
            set ps = set (RPS_PERIODS_loaded data)"
    by (auto simp: construct_RPS_PERIODS_def list_all_iff)
qed

text \<open>
  In the scenario, P3 is rejected and P1 is accepted.
\<close>

theorem RPS_PERIODS_validation_witness:
  "define_components (scenario_model 200) (scenario_data\<lparr>RPS_PERIODS_loaded := [''P3'']\<rparr>)
     = Inl ValueError \<and>
   (\<exists>ps. construct_RPS_PERIODS (scenario_model 200) (RPS_PERIODS_loaded scenario_data) = Inr ps \<and>
         set ps = {''P1''})"
proof -
  have bad: "''P3'' \<in> set (RPS_PERIODS_loaded (scenario_data\<lparr>RPS_PERIODS_loaded := [''P3'']\<rparr>)) \<and>
      ''P3'' \<notin> set (PERIODS (scenario_model 200))"
    by (simp add: scenario_model_def)
  have good: "set (RPS_PERIODS_loaded scenario_data) \<subseteq> set (PERIODS (scenario_model 200))"
    by (simp add: scenario_model_def scenario_data_def)
  from RPS_PERIODS_validation [of "''P3''" "scenario_data\<lparr>RPS_PERIODS_loaded := [''P3'']\<rparr>"
      "scenario_model 200"] bad
  have 1: "define_components (scenario_model 200) (scenario_data\<lparr>RPS_PERIODS_loaded := [''P3'']\<rparr>)
     = Inl ValueError" by blast
  from RPS_PERIODS_validation [of p scenario_data "scenario_model 200"] good
  have 2: "\<exists>ps. construct_RPS_PERIODS (scenario_model 200) (RPS_PERIODS_loaded scenario_data) = Inr ps \<and>
         set ps = set (RPS_PERIODS_loaded scenario_data)" by blast
  from 1 2 show ?thesis by (simp add: scenario_data_def)
qed

text \<open>
  C7. If a loaded value of \<open>rps_target\<close> is below 0 or above 1, the
  construction of the parameter fails with \<open>ValueError\<close>, whatever
  \<open>RPS_PERIODS\<close> is, and so does the construction of the components as a
  whole. If every loaded value lies in the closed interval from 0 to 1 and is
  indexed by a member of \<open>RPS_PERIODS\<close>, the parameter is constructed with
  the loaded values.
\<close>

theorem rps_target_validation:
  "((p, v) \<in> set (rps_target_loaded data) \<and> (v < 0 \<or> 1 < v) \<longrightarrow>
      construct_rps_target periods (rps_target_loaded data) = Inl ValueError \<and>
      define_components mdl data = Inl ValueError) \<and>
   ((\<forall>(p, v)\<in>set (rps_target_loaded data). p \<in> set periods \<and> 0 \<le> v \<and> v \<le> 1) \<longrightarrow>
      construct_rps_target periods (rps_target_loaded data) = Inr (map_of (rps_target_loaded data)))"
proof (intro conjI impI)
  assume bad: "(p, v) \<in> set (rps_target_loaded data) \<and> (v < 0 \<or> 1 < v)"
  then have "\<not> PercentFraction v"
    by (auto simp: PercentFraction_def)
  with bad have fails: "construct_rps_target ps (rps_target_loaded data) = Inl ValueError" for ps
    by (auto simp: construct_rps_target_def list_all_iff)
  then show "construct_rps_target periods (rps_target_loaded data) = Inl ValueError" .
  from fails show "define_components mdl data = Inl ValueError"
    by (rule define_components_bad_target)
next
  assume "\<forall>(p, v)\<in>set (rps_target_loaded data). p \<in> set periods \<and> 0 \<le> v \<and> v \<le> 1"
  then show "construct_rps_target periods (rps_target_loaded data) = Inr (map_of (rps_target_loaded data))"
    by (auto simp: construct_rps_target_def list_all_iff PercentFraction_def)
qed

text \<open>
  In the scenario, a target of 1.5 for P1 is rejected and the target 0.5 is
  accepted.
\<close>

theorem rps_target_validation_witness:
  "define_components (scenario_model 200) (scenario_data\<lparr>rps_target_loaded := [(''P1'', 3 / 2)]\<rparr>)
     = Inl ValueError \<and>
   construct_rps_target [''P1''] (rps_target_loaded scenario_data) = Inr [''P1'' \<mapsto> 1 / 2]"
proof -
  have bad: "(''P1'', 3 / 2) \<in> set (rps_target_loaded (scenario_data\<lparr>rps_target_loaded := [(''P1'', 3 / 2)]\<rparr>)) \<and>
      ((3 / 2 :: real) < 0 \<or> 1 < (3 / 2 :: real))"
    by simp
  have good: "\<forall>(p, v)\<in>set (rps_target_loaded scenario_data). p \<in> set [''P1''] \<and> 0 \<le> v \<and> v \<le> 1"
    by (simp add: scenario_data_def)
  from rps_target_validation [of "''P1''" "3 / 2"
      "scenario_data\<lparr>rps_target_loaded := [(''P1'', 3 / 2)]\<rparr>" "[''P1'']" "scenario_model 200"] bad
  have 1: "define_components (scenario_model 200)
      (scenario_data\<lparr>rps_target_loaded := [(''P1'', 3 / 2)]\<rparr>) = Inl ValueError"
    by blast
  from rps_target_validation [of p v scenario_data "[''P1'']" mdl] good
  have 2: "construct_rps_target [''P1''] (rps_target_loaded scenario_data) =
      Inr (map_of (rps_target_loaded scenario_data))"
    by blast
  from 1 2 show ?thesis by (simp add: scenario_data_def)
qed

subsection \<open>The mandatory targets file\<close>

text \<open>
  C8. If rps\_targets.tab is absent from the inputs directory,
  \<open>load_inputs\<close> fails with \<open>IOError\<close> and returns no data. If fuels.tab
  is there without an \<open>f_rps_eligible\<close> column, loading it is no error and
  loads no eligibility value; with rps\_targets.tab present and holding an
  \<open>rps_target\<close> column, \<open>load_inputs\<close> then succeeds, and the rows of
  rps\_targets.tab give the members of \<open>RPS_PERIODS\<close> and their targets.
\<close>

theorem load_inputs_mandatory_targets_file:
  "(inputs_dir ''rps_targets.tab'' = None \<longrightarrow> load_inputs sd inputs_dir = Inl IOError) \<and>
   (inputs_dir ''fuels.tab'' = Some ft \<and> ''f_rps_eligible'' \<notin> fst ` set (value_columns ft) \<longrightarrow>
      load_aug inputs_dir ''fuels.tab'' ''f_rps_eligible'' True = Inr [] \<and>
      (inputs_dir ''rps_targets.tab'' = Some tt \<and>
       map_of (value_columns tt) ''rps_target'' = Some vs \<longrightarrow>
         load_inputs sd inputs_dir =
           Inr (sd\<lparr>f_rps_eligible_loaded := [],
                   RPS_PERIODS_loaded := map fst (zip (index_column tt) vs),
                   rps_target_loaded := zip (index_column tt) vs\<rparr>)))"
proof (intro conjI impI)
  assume "inputs_dir ''rps_targets.tab'' = None"
  then show "load_inputs sd inputs_dir = Inl IOError"
    by (simp add: load_inputs_def load_aug_def split: option.splits)
next
  assume ft: "inputs_dir ''fuels.tab'' = Some ft \<and>
      ''f_rps_eligible'' \<notin> fst ` set (value_columns ft)"
  then have none: "map_of (value_columns ft) ''f_rps_eligible'' = None"
    by (simp add: map_of_eq_None_iff)
  with ft show fuels: "load_aug inputs_dir ''fuels.tab'' ''f_rps_eligible'' True = Inr []"
    by (simp add: load_aug_def)
  assume "inputs_dir ''rps_targets.tab'' = Some tt \<and>
       map_of (value_columns tt) ''rps_target'' = Some vs"
  then have "load_aug inputs_dir ''rps_targets.tab'' ''rps_target'' False =
      Inr (zip (index_column tt) vs)"
    by (simp add: load_aug_def)
  with fuels show "load_inputs sd inputs_dir =
           Inr (sd\<lparr>f_rps_eligible_loaded := [],
                   RPS_PERIODS_loaded := map fst (zip (index_column tt) vs),
                   rps_target_loaded := zip (index_column tt) vs\<rparr>)"
    by (simp add: load_inputs_def)
qed

text \<open>
  The scenario's directory, with and without rps\_targets.tab.
\<close>

theorem load_inputs_mandatory_targets_file_witness:
  "load_inputs empty_switch_data (scenario_inputs_dir(''rps_targets.tab'' := None)) = Inl IOError \<and>
   load_aug scenario_inputs_dir ''fuels.tab'' ''f_rps_eligible'' True = Inr [] \<and>
   load_inputs empty_switch_data scenario_inputs_dir = Inr scenario_loaded"
proof -
  have absent: "(scenario_inputs_dir(''rps_targets.tab'' := None)) ''rps_targets.tab'' = None"
    by simp
  have ft: "scenario_inputs_dir ''fuels.tab'' =
        Some \<lparr>index_column = [''Biomass'', ''Coal''], value_columns = []\<rparr> \<and>
      ''f_rps_eligible'' \<notin>
        fst ` set (value_columns \<lparr>index_column = [''Biomass'', ''Coal''], value_columns = []\<rparr>)"
    by (simp add: scenario_inputs_dir_fuels)
  have tt: "scenario_inputs_dir ''rps_targets.tab'' =
        Some \<lparr>index_column = [''P1''], value_columns = [(''rps_target'', [1 / 2])]\<rparr> \<and>
      map_of (value_columns \<lparr>index_column = [''P1''], value_columns = [(''rps_target'', [1 / 2])]\<rparr>)
        ''rps_target'' = Some [1 / 2]"
    by (simp add: scenario_inputs_dir_targets)
  from load_inputs_mandatory_targets_file
    [of "scenario_inputs_dir(''rps_targets.tab'' := None)" empty_switch_data] absent
  have 1: "load_inputs empty_switch_data (scenario_inputs_dir(''rps_targets.tab'' := None)) =
      Inl IOError"
    by blast
  from load_inputs_mandatory_targets_file
    [of scenario_inputs_dir empty_switch_data
      "\<lparr>index_column = [''Biomass'', ''Coal''], value_columns = []\<rparr>"
      "\<lparr>index_column = [''P1''], value_columns = [(''rps_target'', [1 / 2])]\<rparr>" "[1 / 2]"]
    ft tt
  have 2: "load_aug scenario_inputs_dir ''fuels.tab'' ''f_rps_eligible'' True = Inr [] \<and>
      load_inputs empty_switch_data scenario_inputs_dir =
        Inr (empty_switch_data\<lparr>f_rps_eligible_loaded := [],
          RPS_PERIODS_loaded := map fst (zip [''P1''] [1 / 2]),
          rps_target_loaded := zip [''P1''] [1 / 2]\<rparr>)"
    by simp
  from 1 2 show ?thesis
    by (simp add: empty_switch_data_def scenario_loaded_def)
qed

subsection \<open>Division by zero in the report\<close>

text \<open>
  C9. Neither division of \<open>get_row\<close> is guarded. For a period of
  \<open>RPS_PERIODS\<close>: if its total demand is zero, or if the sum of its total
  generation has no term at all, \<open>get_row\<close> raises
  \<open>ZeroDivisionError\<close> and produces no row. If its total demand is not zero
  and its total generation is a sum of at least one term with value zero,
  \<open>get_row\<close> does produce a row: the entry for \<open>RPSGenFraction\<close> is an
  expression that divides by zero, and it is the evaluation of that entry
  that raises \<open>ZeroDivisionError\<close>.
\<close>

theorem get_row_division_unguarded:
  assumes p: "p \<in> set (RPS_PERIODS m)"
  shows
  "(total_demand_in_period m p = 0 \<longrightarrow> get_row m p = Inl ZeroDivisionError) \<and>
   (generation_terms m p = [] \<longrightarrow> get_row m p = Inl ZeroDivisionError) \<and>
   (RPSFuelEnergy m p = Inr fe \<and> generation_terms m p \<noteq> [] \<and>
    total_generation_in_period m p = 0 \<and> total_demand_in_period m p \<noteq> 0 \<longrightarrow>
      get_row m p =
        Inr (p,
             Expression (Inr (fe / 1000)),
             Expression (Inr (RPSNonFuelEnergy m p / 1000)),
             Expression (Inr 0),
             Expression (Inl ZeroDivisionError),
             Number (total_demand_in_period m p),
             Expression (Inr ((fe + RPSNonFuelEnergy m p) / total_demand_in_period m p))) \<and>
      expr_value (Expression (Inl ZeroDivisionError)) = Inl ZeroDivisionError)"
proof (intro conjI impI)
  assume demand: "total_demand_in_period m p = 0"
  show "get_row m p = Inl ZeroDivisionError"
  proof (cases "RPSFuelEnergy m p")
    case (Inl e)
    then have "e = ZeroDivisionError" by (rule RPSFuelEnergy_Inl)
    with Inl p show ?thesis by (simp add: get_row_def)
  next
    case (Inr fe')
    have last: "py_truediv a (Number (total_demand_in_period m p)) = Inl ZeroDivisionError"
      for a
      using demand by (simp add: py_truediv_def)
    show ?thesis
    proof (cases "py_truediv (Expression (Inr (fe' + RPSNonFuelEnergy m p)))
                    (total_generation_in_period_py m p)")
      case (Inl e)
      then have "e = ZeroDivisionError" by (rule py_truediv_Inl)
      with Inl Inr p show ?thesis by (simp add: get_row_def py_truediv_1000)
    next
      case fraction: (Inr c)
      with Inr last p show ?thesis by (simp add: get_row_def py_truediv_1000)
    qed
  qed
next
  assume none: "generation_terms m p = []"
  show "get_row m p = Inl ZeroDivisionError"
  proof (cases "RPSFuelEnergy m p")
    case (Inl e)
    then have "e = ZeroDivisionError" by (rule RPSFuelEnergy_Inl)
    with Inl p show ?thesis by (simp add: get_row_def)
  next
    case (Inr fe')
    with none p show ?thesis
      by (simp add: get_row_def py_truediv_1000 total_generation_in_period_py_def)
        (simp add: py_truediv_def)
  qed
next
  assume lazy: "RPSFuelEnergy m p = Inr fe \<and> generation_terms m p \<noteq> [] \<and>
    total_generation_in_period m p = 0 \<and> total_demand_in_period m p \<noteq> 0"
  with p show "get_row m p =
        Inr (p,
             Expression (Inr (fe / 1000)),
             Expression (Inr (RPSNonFuelEnergy m p / 1000)),
             Expression (Inr 0),
             Expression (Inl ZeroDivisionError),
             Number (total_demand_in_period m p),
             Expression (Inr ((fe + RPSNonFuelEnergy m p) / total_demand_in_period m p)))"
    by (simp add: get_row_def py_truediv_def total_generation_in_period_py_def
        expr_value_def py_div_def)
  show "expr_value (Expression (Inl ZeroDivisionError)) = Inl ZeroDivisionError"
    by (simp add: expr_value_def)
qed

text \<open>
  The scenario with no demand at all raises in \<open>get_row\<close>, and so does the
  idle scenario once no project has a timepoint in P1; the idle scenario
  itself, with demand 200 and three projects dispatched at zero, gets a row
  whose \<open>RPSGenFraction\<close> cannot be evaluated.
\<close>

theorem get_row_division_unguarded_witness:
  "define_components (scenario_model 0) scenario_data = Inr (scenario_instance 0) \<and>
   total_demand_in_period (scenario_instance 0) ''P1'' = 0 \<and>
   get_row (scenario_instance 0) ''P1'' = Inl ZeroDivisionError \<and>
   get_row (idle_instance\<lparr>TPS_FOR_GEN_IN_PERIOD := (\<lambda>gp. [])\<rparr>) ''P1'' = Inl ZeroDivisionError \<and>
   total_generation_in_period idle_instance ''P1'' = 0 \<and>
   total_demand_in_period idle_instance ''P1'' = 200 \<and>
   get_row idle_instance ''P1'' =
     Inr (''P1'', Expression (Inr 0), Expression (Inr 0), Expression (Inr 0),
          Expression (Inl ZeroDivisionError), Number 200, Expression (Inr 0))"
proof -
  have p0: "''P1'' \<in> set (RPS_PERIODS (scenario_instance 0))"
    by (simp add: scenario_instance_def)
  have p1: "''P1'' \<in> set (RPS_PERIODS (idle_instance\<lparr>TPS_FOR_GEN_IN_PERIOD := (\<lambda>gp. [])\<rparr>))"
    by (simp add: idle_instance_def)
  have p2: "''P1'' \<in> set (RPS_PERIODS idle_instance)"
    by (simp add: idle_instance_def)
  have zero: "total_demand_in_period (scenario_instance 0) ''P1'' = 0"
    by (simp add: total_demand_in_period_def scenario_instance_def scenario_model_def)
  have none: "generation_terms (idle_instance\<lparr>TPS_FOR_GEN_IN_PERIOD := (\<lambda>gp. [])\<rparr>) ''P1'' = []"
    by (simp add: generation_terms_def)
  have lazy: "RPSFuelEnergy idle_instance ''P1'' = Inr 0 \<and>
      generation_terms idle_instance ''P1'' \<noteq> [] \<and>
      total_generation_in_period idle_instance ''P1'' = 0 \<and>
      total_demand_in_period idle_instance ''P1'' \<noteq> 0"
    by (simp add: idle_instance_def idle_model_def scenario_model_def RPSFuelEnergy_def
        RPSFuelEnergy_term_def f_rps_eligible_def py_div_def generation_terms_def
        total_generation_in_period_def total_demand_in_period_def)
  have vals: "RPSNonFuelEnergy idle_instance ''P1'' = 0 \<and>
      total_demand_in_period idle_instance ''P1'' = 200"
    by (simp add: idle_instance_def idle_model_def scenario_model_def RPSNonFuelEnergy_def
        total_demand_in_period_def)
  from get_row_division_unguarded [OF p0] zero
  have 1: "get_row (scenario_instance 0) ''P1'' = Inl ZeroDivisionError" by blast
  from get_row_division_unguarded [OF p1] none
  have 2: "get_row (idle_instance\<lparr>TPS_FOR_GEN_IN_PERIOD := (\<lambda>gp. [])\<rparr>) ''P1'' =
      Inl ZeroDivisionError" by blast
  from get_row_division_unguarded [OF p2, of 0] lazy
  have 3: "get_row idle_instance ''P1'' =
        Inr (''P1'',
             Expression (Inr (0 / 1000)),
             Expression (Inr (RPSNonFuelEnergy idle_instance ''P1'' / 1000)),
             Expression (Inr 0),
             Expression (Inl ZeroDivisionError),
             Number (total_demand_in_period idle_instance ''P1''),
             Expression (Inr ((0 + RPSNonFuelEnergy idle_instance ''P1'') /
                              total_demand_in_period idle_instance ''P1'')))"
    by blast
  from 1 2 3 zero lazy vals show ?thesis
    by (simp add: define_components_scenario)
qed

text \<open>
  It is not so that \<open>get_row\<close> raises whenever the total generation of a
  period of \<open>RPS_PERIODS\<close> is zero. The idle instance is constructed and
  feasible, P1 is in \<open>RPS_PERIODS\<close>, the total generation of P1 is zero,
  and \<open>get_row\<close> returns a row.
\<close>

theorem get_row_zero_generation_counterexample:
  "define_components idle_model idle_data = Inr idle_instance \<and>
   feasible idle_instance \<and>
   ''P1'' \<in> set (RPS_PERIODS idle_instance) \<and>
   total_generation_in_period idle_instance ''P1'' = 0 \<and>
   get_row idle_instance ''P1'' \<noteq> Inl ZeroDivisionError \<and>
   get_row idle_instance ''P1'' =
     Inr (''P1'', Expression (Inr 0), Expression (Inr 0), Expression (Inr 0),
          Expression (Inl ZeroDivisionError), Number 200, Expression (Inr 0))"
  by (simp add: define_components_idle)
    (simp add: idle_instance_def idle_model_def scenario_model_def feasible_def satisfied_def
      get_row_def py_truediv_def expr_value_def total_generation_in_period_py_def
      generation_terms_def RPSFuelEnergy_def RPSFuelEnergy_term_def f_rps_eligible_def
      py_div_def RPSNonFuelEnergy_def total_generation_in_period_def
      total_demand_in_period_def)

subsection \<open>Monotonicity in the eligibility flags\<close>

text \<open>
  C10. If every heat rate of a fuel-based project is positive and, at the
  timepoints of the period, the weights and the fuel use rates are
  non-negative, then \<open>RPSFuelEnergy[p]\<close> has a value both before and after
  \<open>f_rps_eligible[f]\<close> is set to true, all other data unchanged, and the
  value after is not smaller. (When the flag was true already the two values
  are equal.)
\<close>

theorem RPSFuelEnergy_mono_eligible:
  assumes hr: "\<forall>g\<in>set (FUEL_BASED_GENS m). 0 < gen_full_load_heat_rate m g"
    and nonneg: "\<forall>g\<in>set (FUEL_BASED_GENS m). \<forall>t\<in>set (TPS_FOR_GEN_IN_PERIOD m (g, p)).
                   0 \<le> tp_weight m t \<and>
                   (\<forall>f'\<in>set (FUELS_FOR_GEN m g). 0 \<le> GenFuelUseRate m (g, t, f'))"
  shows "\<exists>a b. RPSFuelEnergy m p = Inr a \<and>
               RPSFuelEnergy (m\<lparr>f_rps_eligible_values := (f_rps_eligible_values m)(f \<mapsto> True)\<rparr>) p = Inr b \<and>
               a \<le> b"
proof -
  let ?m' = "m\<lparr>f_rps_eligible_values := (f_rps_eligible_values m)(f \<mapsto> True)\<rparr>"
  let ?S = "\<lambda>m g t. (\<Sum>f\<leftarrow>filter (f_rps_eligible m) (FUELS_FOR_GEN m g). GenFuelUseRate m (g, t, f))"
  let ?v = "\<lambda>m' g t. tp_weight m t * ?S m' g t / gen_full_load_heat_rate m g"
  have nz: "\<forall>g\<in>set (FUEL_BASED_GENS m). gen_full_load_heat_rate m g \<noteq> 0"
    using hr by auto
  have a: "RPSFuelEnergy m p =
      Inr (\<Sum>g\<leftarrow>FUEL_BASED_GENS m. \<Sum>t\<leftarrow>TPS_FOR_GEN_IN_PERIOD m (g, p). ?v m g t)"
    using RPSFuelEnergy_value [OF nz] by simp
  have nz': "\<forall>g\<in>set (FUEL_BASED_GENS ?m'). gen_full_load_heat_rate ?m' g \<noteq> 0"
    using hr by auto
  have b: "RPSFuelEnergy ?m' p =
      Inr (\<Sum>g\<leftarrow>FUEL_BASED_GENS m. \<Sum>t\<leftarrow>TPS_FOR_GEN_IN_PERIOD m (g, p). ?v ?m' g t)"
    using RPSFuelEnergy_value [OF nz', of p] by simp
  have le: "?v m g t \<le> ?v ?m' g t"
    if g: "g \<in> set (FUEL_BASED_GENS m)" and t: "t \<in> set (TPS_FOR_GEN_IN_PERIOD m (g, p))" for g t
  proof -
    have w: "0 \<le> tp_weight m t"
      and r: "\<forall>f'\<in>set (FUELS_FOR_GEN m g). 0 \<le> GenFuelUseRate m (g, t, f')"
      using nonneg g t by auto
    have "?S m g t \<le> (\<Sum>f'\<leftarrow>filter (f_rps_eligible ?m') (FUELS_FOR_GEN m g). GenFuelUseRate m (g, t, f'))"
      by (rule sum_list_filter_mono [OF r]) (simp add: f_rps_eligible_update)
    then have "?S m g t \<le> ?S ?m' g t" by simp
    then have "tp_weight m t * ?S m g t \<le> tp_weight m t * ?S ?m' g t"
      using w by (rule mult_left_mono)
    moreover have "0 < gen_full_load_heat_rate m g" using hr g by auto
    ultimately show ?thesis by (simp add: divide_right_mono)
  qed
  have "(\<Sum>g\<leftarrow>FUEL_BASED_GENS m. \<Sum>t\<leftarrow>TPS_FOR_GEN_IN_PERIOD m (g, p). ?v m g t)
      \<le> (\<Sum>g\<leftarrow>FUEL_BASED_GENS m. \<Sum>t\<leftarrow>TPS_FOR_GEN_IN_PERIOD m (g, p). ?v ?m' g t)"
    by (intro sum_list_mono le)
  with a b show ?thesis by blast
qed

text \<open>
  In the scenario, making coal eligible raises the fuel energy of P1 from 20
  to 100.
\<close>

theorem RPSFuelEnergy_mono_eligible_witness:
  "\<exists>a b. RPSFuelEnergy (scenario_instance 200) ''P1'' = Inr a \<and>
         RPSFuelEnergy
           ((scenario_instance 200)
              \<lparr>f_rps_eligible_values :=
                 (f_rps_eligible_values (scenario_instance 200))(''Coal'' \<mapsto> True)\<rparr>)
           ''P1'' = Inr b \<and>
         a = 20 \<and> b = 100 \<and> a \<le> b"
proof -
  have hr: "\<forall>g\<in>set (FUEL_BASED_GENS (scenario_instance 200)).
              0 < gen_full_load_heat_rate (scenario_instance 200) g"
    by (simp add: scenario_instance_def scenario_model_def)
  have nonneg: "\<forall>g\<in>set (FUEL_BASED_GENS (scenario_instance 200)).
       \<forall>t\<in>set (TPS_FOR_GEN_IN_PERIOD (scenario_instance 200) (g, ''P1'')).
         0 \<le> tp_weight (scenario_instance 200) t \<and>
         (\<forall>f'\<in>set (FUELS_FOR_GEN (scenario_instance 200) g).
            0 \<le> GenFuelUseRate (scenario_instance 200) (g, t, f'))"
    by (simp add: scenario_instance_def scenario_model_def)
  have after: "RPSFuelEnergy
           ((scenario_instance 200)
              \<lparr>f_rps_eligible_values :=
                 (f_rps_eligible_values (scenario_instance 200))(''Coal'' \<mapsto> True)\<rparr>)
           ''P1'' = Inr 100"
    by (simp add: scenario_instance_def scenario_model_def RPSFuelEnergy_def
        RPSFuelEnergy_term_def f_rps_eligible_def py_div_def)
  from RPSFuelEnergy_mono_eligible [OF hr nonneg, of "''Coal''"] show ?thesis
    by (simp add: scenario_RPSFuelEnergy after)
qed

end
